theory Spec2Isabelle
  imports Main "HOL-Library.Word"
begin

unbundle bit_operations_syntax

section \<open>The callback receiver of tencent-im (package callback)\<close>

text \<open>
  The package receives the webhook calls of the IM platform: \<open>Listen\<close> checks the
  signature of a request, its application id and its command, decodes the body into
  the payload of the command and hands it to the handler registered for the event.
  The embedding follows \<open>src/group/api.go\<close>, lines 1026 to 1368.

  Go's \<open>int64\<close> is a 64-bit word: subtraction and negation wrap around, comparisons
  read the word as two's complement. Go's \<open>int\<close> is taken at its width on 64-bit
  targets. A Go \<open>string\<close> and a \<open>[]byte\<close> are both a list of 8-bit characters.
\<close>

type_synonym int64 = "64 word"
type_synonym go_int = "64 word"
type_synonym uint32 = "32 word"
type_synonym bytes = "char list"

subsection \<open>Standard library: crypto/sha256 and encoding/hex\<close>

text \<open>
  \<open>sha256.New\<close>, \<open>Write\<close> and \<open>Sum(nil)\<close> compute the SHA-256 digest of the bytes
  written (FIPS 180-4): the message is padded with the byte 0x80, zero bytes and its
  length in bits as a 64-bit big-endian number to a multiple of 64 bytes, and each
  block of 64 bytes updates eight 32-bit words.
\<close>

definition rotr :: "nat \<Rightarrow> uint32 \<Rightarrow> uint32" where
  "rotr n x = drop_bit n x OR push_bit (32 - n) x"

definition K256 :: "uint32 list" where
  "K256 =
    [1116352408, 1899447441, 3049323471, 3921009573,
     961987163, 1508970993, 2453635748, 2870763221,
     3624381080, 310598401, 607225278, 1426881987,
     1925078388, 2162078206, 2614888103, 3248222580,
     3835390401, 4022224774, 264347078, 604807628,
     770255983, 1249150122, 1555081692, 1996064986,
     2554220882, 2821834349, 2952996808, 3210313671,
     3336571891, 3584528711, 113926993, 338241895,
     666307205, 773529912, 1294757372, 1396182291,
     1695183700, 1986661051, 2177026350, 2456956037,
     2730485921, 2820302411, 3259730800, 3345764771,
     3516065817, 3600352804, 4094571909, 275423344,
     430227734, 506948616, 659060556, 883997877,
     958139571, 1322822218, 1537002063, 1747873779,
     1955562222, 2024104815, 2227730452, 2361852424,
     2428436474, 2756734187, 3204031479, 3329325298]"

definition init256 :: "uint32 list" where
  "init256 =
    [1779033703, 3144134277, 1013904242, 2773480762,
     1359893119, 2600822924, 528734635, 1541459225]"

definition Ch :: "uint32 \<Rightarrow> uint32 \<Rightarrow> uint32 \<Rightarrow> uint32" where
  "Ch x y z = (x AND y) XOR (NOT x AND z)"

definition Maj :: "uint32 \<Rightarrow> uint32 \<Rightarrow> uint32 \<Rightarrow> uint32" where
  "Maj x y z = (x AND y) XOR (x AND z) XOR (y AND z)"

definition bsig0 :: "uint32 \<Rightarrow> uint32" where
  "bsig0 x = rotr 2 x XOR rotr 13 x XOR rotr 22 x"

definition bsig1 :: "uint32 \<Rightarrow> uint32" where
  "bsig1 x = rotr 6 x XOR rotr 11 x XOR rotr 25 x"

definition ssig0 :: "uint32 \<Rightarrow> uint32" where
  "ssig0 x = rotr 7 x XOR rotr 18 x XOR drop_bit 3 x"

definition ssig1 :: "uint32 \<Rightarrow> uint32" where
  "ssig1 x = rotr 17 x XOR rotr 19 x XOR drop_bit 10 x"

text \<open>The message schedule grows at its head: \<open>ws ! 0\<close> is the newest word.\<close>

fun schedule :: "nat \<Rightarrow> uint32 list \<Rightarrow> uint32 list" where
  "schedule 0 ws = ws"
| "schedule (Suc n) ws =
     schedule n ((ssig1 (ws ! 1) + ws ! 6 + ssig0 (ws ! 14) + ws ! 15) # ws)"

fun round256 :: "uint32 list \<Rightarrow> uint32 \<times> uint32 \<Rightarrow> uint32 list" where
  "round256 [a, b, c, d, e, f, g, h] (k, w) =
     (let t1 = h + bsig1 e + Ch e f g + k + w;
          t2 = bsig0 a + Maj a b c
      in [t1 + t2, a, b, c, d + t1, e, f, g])"
| "round256 st _ = st"

definition be32 :: "bytes \<Rightarrow> uint32" where
  "be32 bs = foldl (\<lambda>acc b. push_bit 8 acc OR of_char b) 0 bs"

fun words_of :: "nat \<Rightarrow> bytes \<Rightarrow> uint32 list" where
  "words_of 0 bs = []"
| "words_of (Suc n) bs = be32 (take 4 bs) # words_of n (drop 4 bs)"

definition block256 :: "uint32 list \<Rightarrow> bytes \<Rightarrow> uint32 list" where
  "block256 st blk =
     (let ws = rev (schedule 48 (rev (words_of 16 blk)))
      in map2 (+) st (foldl round256 st (zip K256 ws)))"

fun blocks256 :: "nat \<Rightarrow> uint32 list \<Rightarrow> bytes \<Rightarrow> uint32 list" where
  "blocks256 0 st bs = st"
| "blocks256 (Suc n) st bs = blocks256 n (block256 st (take 64 bs)) (drop 64 bs)"

definition be_bytes32 :: "uint32 \<Rightarrow> bytes" where
  "be_bytes32 w = map (\<lambda>i. char_of (uint (drop_bit i w))) [24, 16, 8, 0]"

definition be_bytes64 :: "64 word \<Rightarrow> bytes" where
  "be_bytes64 w = map (\<lambda>i. char_of (uint (drop_bit i w))) [56, 48, 40, 32, 24, 16, 8, 0]"

definition pad256 :: "bytes \<Rightarrow> bytes" where
  "pad256 m =
     m @ [char_of (128::int)] @ replicate ((119 - length m mod 64) mod 64) (char_of (0::int))
       @ be_bytes64 (8 * of_nat (length m))"

definition sha256_Sum :: "bytes \<Rightarrow> bytes" where
  "sha256_Sum m =
     (let p = pad256 m
      in concat (map be_bytes32 (blocks256 (length p div 64) init256 p)))"

text \<open>\<open>hex.EncodeToString\<close>: two lower-case hexadecimal digits for each byte.\<close>

definition hextable :: string where
  "hextable = ''0123456789abcdef''"

definition EncodeToString :: "bytes \<Rightarrow> string" where
  "EncodeToString src =
     concat (map (\<lambda>b. [hextable ! (of_char b div 16), hextable ! (of_char b mod 16)]) src)"

subsection \<open>Standard library: strconv\<close>

text \<open>
  \<open>strconv.FormatInt(i, 10)\<close> writes a minus sign for a negative number and then the
  decimal digits of the magnitude, which it takes as the unsigned word \<open>-i\<close>;
  \<open>strconv.Itoa(i)\<close> is \<open>FormatInt(int64(i), 10)\<close>.
\<close>

definition digit :: "nat \<Rightarrow> char" where
  "digit d = ''0123456789'' ! d"

fun formatBits :: "nat \<Rightarrow> string" where
  "formatBits n = (if n < 10 then [digit n] else formatBits (n div 10) @ [digit (n mod 10)])"

declare formatBits.simps [simp del]

definition FormatInt :: "int64 \<Rightarrow> string" where
  "FormatInt i = (if i <s 0 then CHR ''-'' # formatBits (unat (- i)) else formatBits (unat i))"

definition Itoa :: "go_int \<Rightarrow> string" where
  "Itoa i = FormatInt i"

text \<open>
  \<open>strconv.ParseInt(s, 10, 64)\<close> accepts an optional sign followed by at least one
  decimal digit and nothing else, and refuses a number outside the range of
  \<open>int64\<close> (the magnitude is compared with the cutoff \<open>2 ^ 63\<close>). \<open>Listen\<close> only asks
  whether an error came back, so every error is \<open>None\<close> here.
\<close>

definition is_digit :: "char \<Rightarrow> bool" where
  "is_digit c = (48 \<le> (of_char c :: nat) \<and> (of_char c :: nat) \<le> 57)"

fun parse_digits :: "nat \<Rightarrow> string \<Rightarrow> nat option" where
  "parse_digits acc [] = Some acc"
| "parse_digits acc (c # cs) =
     (if is_digit c then parse_digits (acc * 10 + (of_char c - 48)) cs else None)"

definition ParseUint :: "string \<Rightarrow> nat option" where
  "ParseUint s = (if s = [] then None else parse_digits 0 s)"

definition ParseInt :: "string \<Rightarrow> int64 option" where
  "ParseInt s =
     (if s = [] then None
      else let neg = (hd s = CHR ''-'');
               s' = (if hd s = CHR ''+'' \<or> hd s = CHR ''-'' then tl s else s)
           in case ParseUint s' of
                None \<Rightarrow> None
              | Some un \<Rightarrow>
                  if \<not> neg \<and> un \<ge> 2 ^ 63 then None
                  else if neg \<and> un > 2 ^ 63 then None
                  else Some (if neg then - of_nat un else of_nat un))"

subsection \<open>Constants and types of the package\<close>

abbreviation commandStateChange :: string where
  "commandStateChange \<equiv> ''State.StateChange''"
abbreviation commandBeforeFriendAdd :: string where
  "commandBeforeFriendAdd \<equiv> ''Sns.CallbackPrevFriendAdd''"
abbreviation commandBeforeFriendResponse :: string where
  "commandBeforeFriendResponse \<equiv> ''Sns.CallbackPrevFriendResponse''"
abbreviation commandAfterFriendAdd :: string where
  "commandAfterFriendAdd \<equiv> ''Sns.CallbackFriendAdd''"
abbreviation commandAfterFriendDelete :: string where
  "commandAfterFriendDelete \<equiv> ''Sns.CallbackFriendDelete''"
abbreviation commandAfterBlacklistAdd :: string where
  "commandAfterBlacklistAdd \<equiv> ''Sns.CallbackBlackListAdd''"
abbreviation commandAfterBlacklistDelete :: string where
  "commandAfterBlacklistDelete \<equiv> ''Sns.CallbackBlackListDelete''"
abbreviation commandBeforePrivateMessageSend :: string where
  "commandBeforePrivateMessageSend \<equiv> ''C2C.CallbackBeforeSendMsg''"
abbreviation commandAfterPrivateMessageSend :: string where
  "commandAfterPrivateMessageSend \<equiv> ''C2C.CallbackAfterSendMsg''"
abbreviation commandAfterPrivateMessageReport :: string where
  "commandAfterPrivateMessageReport \<equiv> ''C2C.CallbackAfterMsgReport''"
abbreviation commandAfterPrivateMessageRevoke :: string where
  "commandAfterPrivateMessageRevoke \<equiv> ''C2C.CallbackAfterMsgWithDraw''"
abbreviation commandBeforeGroupCreate :: string where
  "commandBeforeGroupCreate \<equiv> ''Group.CallbackBeforeCreateGroup''"
abbreviation commandAfterGroupCreate :: string where
  "commandAfterGroupCreate \<equiv> ''Group.CallbackAfterCreateGroup''"
abbreviation commandBeforeApplyJoinGroup :: string where
  "commandBeforeApplyJoinGroup \<equiv> ''Group.CallbackBeforeApplyJoinGroup''"
abbreviation commandBeforeInviteJoinGroup :: string where
  "commandBeforeInviteJoinGroup \<equiv> ''Group.CallbackBeforeInviteJoinGroup''"
abbreviation commandAfterNewMemberJoinGroup :: string where
  "commandAfterNewMemberJoinGroup \<equiv> ''Group.CallbackAfterNewMemberJoin''"
abbreviation commandAfterMemberExitGroup :: string where
  "commandAfterMemberExitGroup \<equiv> ''Group.CallbackAfterMemberExit''"
abbreviation commandBeforeGroupMessageSend :: string where
  "commandBeforeGroupMessageSend \<equiv> ''Group.CallbackBeforeSendMsg''"
abbreviation commandAfterGroupMessageSend :: string where
  "commandAfterGroupMessageSend \<equiv> ''Group.CallbackAfterSendMsg''"
abbreviation commandAfterGroupFull :: string where
  "commandAfterGroupFull \<equiv> ''Group.CallbackAfterGroupFull''"
abbreviation commandAfterGroupDestroyed :: string where
  "commandAfterGroupDestroyed \<equiv> ''Group.CallbackAfterGroupDestroyed''"
abbreviation commandAfterGroupInfoChanged :: string where
  "commandAfterGroupInfoChanged \<equiv> ''Group.CallbackAfterGroupInfoChanged''"

text \<open>\<open>type Event int\<close>, its constants numbered by \<open>iota + 1\<close>.\<close>

type_synonym Event = go_int

abbreviation (input) EventStateChange :: Event where "EventStateChange \<equiv> 1"
abbreviation (input) EventBeforeFriendAdd :: Event where "EventBeforeFriendAdd \<equiv> 2"
abbreviation (input) EventBeforeFriendResponse :: Event where "EventBeforeFriendResponse \<equiv> 3"
abbreviation (input) EventAfterFriendAdd :: Event where "EventAfterFriendAdd \<equiv> 4"
abbreviation (input) EventAfterFriendDelete :: Event where "EventAfterFriendDelete \<equiv> 5"
abbreviation (input) EventAfterBlacklistAdd :: Event where "EventAfterBlacklistAdd \<equiv> 6"
abbreviation (input) EventAfterBlacklistDelete :: Event where "EventAfterBlacklistDelete \<equiv> 7"
abbreviation (input) EventBeforePrivateMessageSend :: Event where "EventBeforePrivateMessageSend \<equiv> 8"
abbreviation (input) EventAfterPrivateMessageSend :: Event where "EventAfterPrivateMessageSend \<equiv> 9"
abbreviation (input) EventAfterPrivateMessageReport :: Event where "EventAfterPrivateMessageReport \<equiv> 10"
abbreviation (input) EventAfterPrivateMessageRevoke :: Event where "EventAfterPrivateMessageRevoke \<equiv> 11"
abbreviation (input) EventBeforeGroupCreate :: Event where "EventBeforeGroupCreate \<equiv> 12"
abbreviation (input) EventAfterGroupCreate :: Event where "EventAfterGroupCreate \<equiv> 13"
abbreviation (input) EventBeforeApplyJoinGroup :: Event where "EventBeforeApplyJoinGroup \<equiv> 14"
abbreviation (input) EventBeforeInviteJoinGroup :: Event where "EventBeforeInviteJoinGroup \<equiv> 15"
abbreviation (input) EventAfterNewMemberJoinGroup :: Event where "EventAfterNewMemberJoinGroup \<equiv> 16"
abbreviation (input) EventAfterMemberExitGroup :: Event where "EventAfterMemberExitGroup \<equiv> 17"
abbreviation (input) EventBeforeGroupMessageSend :: Event where "EventBeforeGroupMessageSend \<equiv> 18"
abbreviation (input) EventAfterGroupMessageSend :: Event where "EventAfterGroupMessageSend \<equiv> 19"
abbreviation (input) EventAfterGroupFull :: Event where "EventAfterGroupFull \<equiv> 20"
abbreviation (input) EventAfterGroupDestroyed :: Event where "EventAfterGroupDestroyed \<equiv> 21"
abbreviation (input) EventAfterGroupInfoChanged :: Event where "EventAfterGroupInfoChanged \<equiv> 22"

abbreviation ackSuccessStatus :: string where "ackSuccessStatus \<equiv> ''OK''"
abbreviation ackFailureStatus :: string where "ackFailureStatus \<equiv> ''FAIL''"
abbreviation (input) ackSuccessCode :: go_int where "ackSuccessCode \<equiv> 0"
abbreviation (input) ackFailureCode :: go_int where "ackFailureCode \<equiv> 1"

abbreviation queryAppId :: string where "queryAppId \<equiv> ''SdkAppid''"
abbreviation queryCommand :: string where "queryCommand \<equiv> ''CallbackCommand''"
abbreviation querySignRequestTime :: string where "querySignRequestTime \<equiv> ''RequestTime''"
abbreviation querySign :: string where "querySign \<equiv> ''Sign''"

abbreviation (input) StatusOK :: nat where "StatusOK \<equiv> 200"

text \<open>
  The payload structs (\<open>StateChange\<close>, \<open>BeforeFriendAdd\<close>, ...) and \<open>BaseResp\<close> are
  declared in another file of the package. A payload struct is known here by its
  name, the shape \<open>parseCommand\<close> allocates; \<open>BaseResp\<close> by the three fields the Ack
  methods set.
\<close>

datatype Shape =
    StateChange | BeforeFriendAdd | BeforeFriendResponse | AfterFriendAdd
  | AfterFriendDelete | AfterBlacklistAdd | AfterBlacklistDelete
  | BeforePrivateMessageSend | AfterPrivateMessageSend | AfterPrivateMessageReport
  | AfterPrivateMessageRevoke | BeforeGroupCreate | AfterGroupCreate
  | BeforeApplyJoinGroup | BeforeInviteJoinGroup | AfterNewMemberJoinGroup
  | AfterMemberExitGroup | BeforeGroupMessageSend | AfterGroupMessageSend
  | AfterGroupFull | AfterGroupDestroyed | AfterGroupInfoChanged

record BaseResp =
  ActionStatus :: string
  ErrorCode :: go_int
  ErrorInfo :: string

text \<open>
  An \<open>interface{}\<close> value handed to \<open>Ack\<close>: a \<open>BaseResp\<close>, or a value of the
  application (type \<open>'a\<close>).
\<close>

datatype 'a resp = Envelope BaseResp | Value 'a

text \<open>
  An \<open>error\<close> is made by \<open>errors.New\<close> in this package or comes back from
  \<open>json.Unmarshal\<close>; \<open>Error\<close> is its text.
\<close>

datatype error = errors_New string | json_error string

fun Error :: "error \<Rightarrow> string" where
  "Error (errors_New s) = s"
| "Error (json_error s) = s"

text \<open>
  What lies outside the package is a parameter: the clock (\<open>time.Now().Unix()\<close>) and
  the two functions of \<open>encoding/json\<close>. \<open>json_Unmarshal\<close> decodes a body into a
  fresh struct of the given shape (type \<open>'d\<close> holds the decoded payloads), with
  the text of the error on the left when it fails; \<open>json_Marshal\<close> encodes a value.
\<close>

record ('d, 'a) runtime =
  time_Now_Unix :: int64
  json_Unmarshal :: "Shape \<Rightarrow> bytes \<Rightarrow> string + 'd"
  json_Marshal :: "'a resp \<Rightarrow> string + bytes"

text \<open>
  Effects are a trace. The \<open>http.ResponseWriter\<close> is the list of the calls made on
  it; a call of a handler (with the context and the payload it receives) and a
  run-time panic are events of the same trace, so that their order is kept.
\<close>

datatype ('c, 'd) effect =
    WriteHeader nat
  | Write bytes
  | Invoke Event 'c 'd
  | Panic string

type_synonym ('c, 'd) ResponseWriter = "('c, 'd) effect list"

text \<open>
  A handler reaches the response only through the three methods of the \<open>Ack\<close> it is
  given: it is the function from the context and the payload to the calls it makes
  on that \<open>Ack\<close>, in order. A Go function value may also be \<open>nil\<close>.
\<close>

datatype 'a ack_call =
    CallAck "'a resp"
  | CallAckFailure "string list"
  | CallAckSuccess go_int "string list"

datatype ('c, 'd, 'a) EventHandlerFunc =
    nil_func
  | func "'c \<Rightarrow> 'd \<Rightarrow> 'a ack_call list"

record ('c, 'd, 'a) callback =
  appId :: go_int
  token :: string
  handlers :: "Event \<rightharpoonup> ('c, 'd, 'a) EventHandlerFunc"

text \<open>
  Of a request, \<open>Listen\<close> reads the query and the body: \<open>rawQuery\<close> holds the
  key/value pairs of the query string in the order they appear (unescaped, as
  \<open>url.ParseQuery\<close> walks them), \<open>Body\<close> what \<open>ioutil.ReadAll\<close> returns, the text of
  the I/O error on the left.
\<close>

record request =
  rawQuery :: "(string \<times> string) list"
  Body :: "string + bytes"

subsection \<open>NewCallback, signCheck, abs, Register\<close>

definition NewCallback :: "go_int \<Rightarrow> string list \<Rightarrow> ('c, 'd, 'a) callback" where
  "NewCallback appId' token' =
     \<lparr>appId = appId',
      token = (if length token' > 0 then token' ! 0 else ''''),
      handlers = Map.empty\<rparr>"

definition abs_int64 :: "int64 \<Rightarrow> int64" where
  "abs_int64 x = (if x <s 0 then - x else x)"

definition signCheck :: "int64 \<Rightarrow> string \<Rightarrow> int64 \<Rightarrow> string \<Rightarrow> error option" where
  "signCheck now sign requestTime token' =
     (if 60 \<le>s abs_int64 (now - requestTime) then Some (errors_New ''request time expired'')
      else let data = token' @ FormatInt requestTime;
               signStr = EncodeToString (sha256_Sum data)
           in if sign \<noteq> signStr then Some (errors_New ''invalid signature'') else None)"

definition Register ::
  "('c, 'd, 'a) callback \<Rightarrow> Event \<Rightarrow> ('c, 'd, 'a) EventHandlerFunc \<Rightarrow> ('c, 'd, 'a) callback" where
  "Register c event handler = c\<lparr>handlers := (handlers c)(event \<mapsto> handler)\<rparr>"

subsection \<open>The Ack methods\<close>

text \<open>\<open>b, _ := json.Marshal(resp)\<close>: the bytes, and nil when \<open>Marshal\<close> fails.\<close>

definition Marshal_bytes :: "('d, 'a) runtime \<Rightarrow> 'a resp \<Rightarrow> bytes" where
  "Marshal_bytes rt resp' = (case json_Marshal rt resp' of Inl err \<Rightarrow> [] | Inr b \<Rightarrow> b)"

definition Ack ::
  "('d, 'a) runtime \<Rightarrow> ('c, 'd) ResponseWriter \<Rightarrow> 'a resp \<Rightarrow> ('c, 'd) ResponseWriter" where
  "Ack rt w resp' =
     (let b = Marshal_bytes rt resp'
      in w @ [WriteHeader StatusOK, Write b])"

definition AckFailure ::
  "('d, 'a) runtime \<Rightarrow> ('c, 'd) ResponseWriter \<Rightarrow> string list \<Rightarrow> ('c, 'd) ResponseWriter" where
  "AckFailure rt w message =
     (let resp' = \<lparr>ActionStatus = ackFailureStatus, ErrorCode = ackFailureCode, ErrorInfo = ''''\<rparr>;
          resp' = (if length message > 0 then resp'\<lparr>ErrorInfo := message ! 0\<rparr> else resp')
      in Ack rt w (Envelope resp'))"

definition AckSuccess ::
  "('d, 'a) runtime \<Rightarrow> ('c, 'd) ResponseWriter \<Rightarrow> go_int \<Rightarrow> string list
     \<Rightarrow> ('c, 'd) ResponseWriter" where
  "AckSuccess rt w code message =
     (let resp' = \<lparr>ActionStatus = ackSuccessStatus, ErrorCode = code, ErrorInfo = ''''\<rparr>;
          resp' = (if length message > 0 then resp'\<lparr>ErrorInfo := message ! 0\<rparr> else resp')
      in Ack rt w (Envelope resp'))"

subsection \<open>GetQuery and parseCommand\<close>

text \<open>
  \<open>r.URL.Query()\<close> builds the map from keys to their values by appending each value
  to the slice of its key, in the order of the query string.
\<close>

definition URL_Query :: "request \<Rightarrow> (string \<rightharpoonup> string list)" where
  "URL_Query r =
     foldl (\<lambda>m (k, v). m(k \<mapsto> (case m k of None \<Rightarrow> [] | Some vs \<Rightarrow> vs) @ [v]))
       Map.empty (rawQuery r)"

definition GetQuery :: "request \<Rightarrow> string \<Rightarrow> string \<times> bool" where
  "GetQuery r key =
     (case URL_Query r key of
        Some values \<Rightarrow> (values ! 0, True)
      | None \<Rightarrow> ('''', False))"

text \<open>The switch of \<open>parseCommand\<close>: the event and the struct allocated for a command.\<close>

definition command_switch :: "string \<Rightarrow> (Event \<times> Shape) option" where
  "command_switch command =
     (if command = commandStateChange then Some (EventStateChange, StateChange)
      else if command = commandBeforeFriendAdd then Some (EventBeforeFriendAdd, BeforeFriendAdd)
      else if command = commandBeforeFriendResponse
        then Some (EventBeforeFriendResponse, BeforeFriendResponse)
      else if command = commandAfterFriendAdd then Some (EventAfterFriendAdd, AfterFriendAdd)
      else if command = commandAfterFriendDelete
        then Some (EventAfterFriendDelete, AfterFriendDelete)
      else if command = commandAfterBlacklistAdd
        then Some (EventAfterBlacklistAdd, AfterBlacklistAdd)
      else if command = commandAfterBlacklistDelete
        then Some (EventAfterBlacklistDelete, AfterBlacklistDelete)
      else if command = commandBeforePrivateMessageSend
        then Some (EventBeforePrivateMessageSend, BeforePrivateMessageSend)
      else if command = commandAfterPrivateMessageSend
        then Some (EventAfterPrivateMessageSend, AfterPrivateMessageSend)
      else if command = commandAfterPrivateMessageReport
        then Some (EventAfterPrivateMessageReport, AfterPrivateMessageReport)
      else if command = commandAfterPrivateMessageRevoke
        then Some (EventAfterPrivateMessageRevoke, AfterPrivateMessageRevoke)
      else if command = commandBeforeGroupCreate
        then Some (EventBeforeGroupCreate, BeforeGroupCreate)
      else if command = commandAfterGroupCreate
        then Some (EventAfterGroupCreate, AfterGroupCreate)
      else if command = commandBeforeApplyJoinGroup
        then Some (EventBeforeApplyJoinGroup, BeforeApplyJoinGroup)
      else if command = commandBeforeInviteJoinGroup
        then Some (EventBeforeInviteJoinGroup, BeforeInviteJoinGroup)
      else if command = commandAfterNewMemberJoinGroup
        then Some (EventAfterNewMemberJoinGroup, AfterNewMemberJoinGroup)
      else if command = commandAfterMemberExitGroup
        then Some (EventAfterMemberExitGroup, AfterMemberExitGroup)
      else if command = commandBeforeGroupMessageSend
        then Some (EventBeforeGroupMessageSend, BeforeGroupMessageSend)
      else if command = commandAfterGroupMessageSend
        then Some (EventAfterGroupMessageSend, AfterGroupMessageSend)
      else if command = commandAfterGroupFull then Some (EventAfterGroupFull, AfterGroupFull)
      else if command = commandAfterGroupDestroyed
        then Some (EventAfterGroupDestroyed, AfterGroupDestroyed)
      else if command = commandAfterGroupInfoChanged
        then Some (EventAfterGroupInfoChanged, AfterGroupInfoChanged)
      else None)"

definition parseCommand ::
  "('d, 'a) runtime \<Rightarrow> string \<Rightarrow> bytes \<Rightarrow> error + (Event \<times> 'd)" where
  "parseCommand rt command body =
     (case command_switch command of
        None \<Rightarrow> Inl (errors_New ''invalid callback command'')
      | Some (event, shape) \<Rightarrow>
          (case json_Unmarshal rt shape body of
             Inl e \<Rightarrow> Inl (json_error e)
           | Inr data \<Rightarrow> Inr (event, data)))"

subsection \<open>Listen\<close>

fun run_ack ::
  "('d, 'a) runtime \<Rightarrow> ('c, 'd) ResponseWriter \<Rightarrow> 'a ack_call \<Rightarrow> ('c, 'd) ResponseWriter" where
  "run_ack rt w (CallAck v) = Ack rt w v"
| "run_ack rt w (CallAckFailure message) = AckFailure rt w message"
| "run_ack rt w (CallAckSuccess code message) = AckSuccess rt w code message"

text \<open>The call \<open>fn(ctx, a, data)\<close>: calling a nil function panics.\<close>

fun call_handler ::
  "('d, 'a) runtime \<Rightarrow> ('c, 'd) ResponseWriter \<Rightarrow> ('c, 'd, 'a) EventHandlerFunc \<Rightarrow> Event
     \<Rightarrow> 'c \<Rightarrow> 'd \<Rightarrow> ('c, 'd) ResponseWriter" where
  "call_handler rt w nil_func event ctx data = w @ [Panic ''call of nil func'']"
| "call_handler rt w (func fn) event ctx data =
     foldl (run_ack rt) (w @ [Invoke event ctx data]) (fn ctx data)"

text \<open>\<open>Listen\<close> from the check of the application id on (lines 1214 to 1242).\<close>

definition Listen_dispatch ::
  "('d, 'a) runtime \<Rightarrow> ('c, 'd, 'a) callback \<Rightarrow> 'c \<Rightarrow> ('c, 'd) ResponseWriter \<Rightarrow> request
     \<Rightarrow> ('c, 'd) ResponseWriter" where
  "Listen_dispatch rt c ctx w r =
     (case GetQuery r queryAppId of (appId', ok) \<Rightarrow>
        if \<not> ok \<or> appId' \<noteq> Itoa (appId c) then AckFailure rt w [''invalid sdk appId'']
        else (case GetQuery r queryCommand of (command, ok) \<Rightarrow>
          if \<not> ok then AckFailure rt w [''invalid callback command'']
          else (case Body r of
                  Inl err \<Rightarrow> AckFailure rt w [err]
                | Inr body \<Rightarrow>
                    (case parseCommand rt command body of
                       Inl err \<Rightarrow> AckFailure rt w [Error err]
                     | Inr (event, data) \<Rightarrow>
                         (case handlers c event of
                            Some fn \<Rightarrow> call_handler rt w fn event ctx data
                          | None \<Rightarrow> AckSuccess rt w ackSuccessCode [])))))"

text \<open>\<open>Listen\<close>: the signature block (lines 1193 to 1213), then the rest.\<close>

definition Listen ::
  "('d, 'a) runtime \<Rightarrow> ('c, 'd, 'a) callback \<Rightarrow> 'c \<Rightarrow> ('c, 'd) ResponseWriter \<Rightarrow> request
     \<Rightarrow> ('c, 'd) ResponseWriter" where
  "Listen rt c ctx w r =
     (if token c \<noteq> '''' then
        (case GetQuery r querySign of (sign, ok) \<Rightarrow>
           if \<not> ok then AckFailure rt w [''invalid sign'']
           else (case GetQuery r querySignRequestTime of (requestTime, ok) \<Rightarrow>
             if \<not> ok then AckFailure rt w [''invalid request time'']
             else (case ParseInt requestTime of
                     None \<Rightarrow> AckFailure rt w [''parse request time err'']
                   | Some requestTimeInt \<Rightarrow>
                       (case signCheck (time_Now_Unix rt) sign requestTimeInt (token c) of
                          Some err \<Rightarrow> AckFailure rt w [Error err]
                        | None \<Rightarrow> Listen_dispatch rt c ctx w r))))
      else Listen_dispatch rt c ctx w r)"

text \<open>The number of responses on a writer: one for each body written.\<close>

fun is_Write :: "('c, 'd) effect \<Rightarrow> bool" where
  "is_Write (Write b) = True"
| "is_Write _ = False"

fun is_Invoke :: "('c, 'd) effect \<Rightarrow> bool" where
  "is_Invoke (Invoke e c d) = True"
| "is_Invoke _ = False"

fun is_Panic :: "('c, 'd) effect \<Rightarrow> bool" where
  "is_Panic (Panic s) = True"
| "is_Panic _ = False"

definition acks :: "('c, 'd) ResponseWriter \<Rightarrow> nat" where
  "acks w = length (filter is_Write w)"

text \<open>The supported command strings, in the order of the switch.\<close>

definition commands :: "string list" where
  "commands =
     [commandStateChange, commandBeforeFriendAdd, commandBeforeFriendResponse,
      commandAfterFriendAdd, commandAfterFriendDelete, commandAfterBlacklistAdd,
      commandAfterBlacklistDelete, commandBeforePrivateMessageSend,
      commandAfterPrivateMessageSend, commandAfterPrivateMessageReport,
      commandAfterPrivateMessageRevoke, commandBeforeGroupCreate, commandAfterGroupCreate,
      commandBeforeApplyJoinGroup, commandBeforeInviteJoinGroup,
      commandAfterNewMemberJoinGroup, commandAfterMemberExitGroup,
      commandBeforeGroupMessageSend, commandAfterGroupMessageSend, commandAfterGroupFull,
      commandAfterGroupDestroyed, commandAfterGroupInfoChanged]"

subsection \<open>Specification predicates and concrete scenarios\<close>

text \<open>
  \<open>verified\<close>: the signature block of \<open>Listen\<close> lets the request through.
  \<open>resolves\<close>: the request passes every check of \<open>Listen\<close> and its body decodes,
  so that \<open>Listen\<close> reaches the lookup of the handler with this event and payload.
\<close>

definition verified :: "('d, 'a) runtime \<Rightarrow> ('c, 'd, 'a) callback \<Rightarrow> request \<Rightarrow> bool" where
  "verified rt c r =
     (token c = '''' \<or>
      (case GetQuery r querySign of (sign, ok) \<Rightarrow>
         ok \<and> (case GetQuery r querySignRequestTime of (requestTime, ok') \<Rightarrow>
           ok' \<and> (case ParseInt requestTime of
                     None \<Rightarrow> False
                   | Some t \<Rightarrow> signCheck (time_Now_Unix rt) sign t (token c) = None))))"

definition resolves ::
  "('d, 'a) runtime \<Rightarrow> ('c, 'd, 'a) callback \<Rightarrow> request \<Rightarrow> Event \<Rightarrow> 'd \<Rightarrow> bool" where
  "resolves rt c r event data =
     (verified rt c r \<and> GetQuery r queryAppId = (Itoa (appId c), True) \<and>
      (case GetQuery r queryCommand of (command, ok) \<Rightarrow>
         ok \<and> (case Body r of
                 Inl err \<Rightarrow> False
               | Inr body \<Rightarrow> parseCommand rt command body = Inr (event, data))))"

text \<open>
  A runtime for the concrete scenarios: the clock stands at 1700000000, the decoder
  refuses the empty body and returns every other body as it is, the encoder writes
  the three fields of an envelope separated by blanks and refuses everything else.
\<close>

definition example_runtime :: "(bytes, unit) runtime" where
  "example_runtime =
     \<lparr>time_Now_Unix = 1700000000,
      json_Unmarshal =
        (\<lambda>shape body. if body = [] then Inl ''unexpected end of JSON input'' else Inr body),
      json_Marshal =
        (\<lambda>v. case v of
               Envelope b \<Rightarrow> Inr (ActionStatus b @ '' '' @ Itoa (ErrorCode b) @ '' '' @ ErrorInfo b)
             | Value u \<Rightarrow> Inl ''json: unsupported type'')\<rparr>"

text \<open>Three handlers: one never answers, one accepts, one refuses.\<close>

definition handler_silent :: "unit \<Rightarrow> bytes \<Rightarrow> unit ack_call list" where
  "handler_silent ctx data = []"

definition handler_accept :: "unit \<Rightarrow> bytes \<Rightarrow> unit ack_call list" where
  "handler_accept ctx data = [CallAckSuccess 0 []]"

definition handler_refuse :: "unit \<Rightarrow> bytes \<Rightarrow> unit ack_call list" where
  "handler_refuse ctx data = [CallAckFailure [''refused'']]"

text \<open>
  The scenario of the specification: application 140000000, no secret, the command
  \<open>Group.CallbackAfterCreateGroup\<close>.
\<close>

definition example_callback :: "(unit, bytes, unit) callback" where
  "example_callback = NewCallback 140000000 []"

definition example_request :: request where
  "example_request =
     \<lparr>rawQuery = [(''SdkAppid'', ''140000000''),
                  (''CallbackCommand'', ''Group.CallbackAfterCreateGroup'')],
      Body = Inr ''{}''\<rparr>"

text \<open>
  The same scenario with the secret \<open>secret\<close>: the request is signed for the time
  1700000000, \<open>Sign\<close> is the digest of \<open>secret1700000000\<close>.
\<close>

definition example_signed_callback :: "(unit, bytes, unit) callback" where
  "example_signed_callback = NewCallback 140000000 [''secret'']"

definition example_signed_request :: request where
  "example_signed_request =
     \<lparr>rawQuery = [(''SdkAppid'', ''140000000''),
                  (''CallbackCommand'', ''Group.CallbackAfterCreateGroup''),
                  (''Sign'', ''a09abffb61e9ed1074de76ba1133a9900ffb7cccde778fb92b31afb76f5390ff''),
                  (''RequestTime'', ''1700000000'')],
      Body = Inr ''{}''\<rparr>"

section \<open>Properties\<close>

subsection \<open>Query parameters\<close>

lemma foldl_query_eq:
  "foldl (\<lambda>m (k, v). m(k \<mapsto> (case m k of None \<Rightarrow> [] | Some vs \<Rightarrow> vs) @ [v])) Map.empty ps key =
     (case map snd (filter (\<lambda>kv. fst kv = key) ps) of [] \<Rightarrow> None | vs \<Rightarrow> Some vs)"
proof (induction ps rule: rev_induct)
  case Nil
  then show ?case by simp
next
  case (snoc p ps)
  then show ?case
    by (cases p) (auto split: list.splits option.splits)
qed

lemma URL_Query_eq:
  "URL_Query r key =
     (case map snd (filter (\<lambda>kv. fst kv = key) (rawQuery r)) of [] \<Rightarrow> None | vs \<Rightarrow> Some vs)"
  unfolding URL_Query_def by (rule foldl_query_eq)

text \<open>The slice of a key is never empty, so \<open>values[0]\<close> in \<open>GetQuery\<close> is in range.\<close>

lemma URL_Query_nonempty: "URL_Query r key = Some values \<Longrightarrow> values \<noteq> []"
  by (auto simp: URL_Query_eq split: list.splits)

lemma GetQuery_eq:
  "GetQuery r key =
     (case filter (\<lambda>kv. fst kv = key) (rawQuery r) of
        [] \<Rightarrow> ('''', False)
      | kv # kvs \<Rightarrow> (snd kv, True))"
  by (auto simp: GetQuery_def URL_Query_eq split: list.splits)

subsection \<open>The digest\<close>

lemma length_round256: "length st = 8 \<Longrightarrow> length (round256 st kw) = 8"
  by (induction st kw rule: round256.induct) (simp_all add: Let_def)

lemma length_foldl_round256: "length st = 8 \<Longrightarrow> length (foldl round256 st kws) = 8"
  by (induction kws arbitrary: st) (simp_all add: length_round256)

lemma length_block256: "length st = 8 \<Longrightarrow> length (block256 st blk) = 8"
  by (simp add: block256_def Let_def length_foldl_round256)

lemma length_blocks256: "length st = 8 \<Longrightarrow> length (blocks256 n st bs) = 8"
  by (induction n arbitrary: st bs) (simp_all add: length_block256)

lemma length_concat_be_bytes32: "length (concat (map be_bytes32 ws)) = 4 * length ws"
  by (induction ws) (simp_all add: be_bytes32_def)

lemma length_sha256_Sum: "length (sha256_Sum m) = 32"
  by (simp add: sha256_Sum_def Let_def length_concat_be_bytes32 length_blocks256 init256_def)

lemma length_EncodeToString: "length (EncodeToString src) = 2 * length src"
  unfolding EncodeToString_def by (induction src) simp_all

lemma length_digest: "length (EncodeToString (sha256_Sum m)) = 64"
  by (simp add: length_EncodeToString length_sha256_Sum)

text \<open>The test vector of FIPS 180-4 for the message \<open>abc\<close>.\<close>

lemma sha256_abc:
  "EncodeToString (sha256_Sum ''abc'') =
     ''ba7816bf8f01cfea414140de5dae2223b00361a396177a9cb410ff61f20015ad''"
  by code_simp

subsection \<open>The Ack methods\<close>

lemma AckFailure_eq:
  "AckFailure rt w [msg] =
     w @ [WriteHeader 200,
          Write (Marshal_bytes rt
            (Envelope \<lparr>ActionStatus = ''FAIL'', ErrorCode = 1, ErrorInfo = msg\<rparr>))]"
  by (simp add: AckFailure_def Ack_def)

lemma AckSuccess_eq:
  "AckSuccess rt w code [] =
     w @ [WriteHeader 200,
          Write (Marshal_bytes rt
            (Envelope \<lparr>ActionStatus = ''OK'', ErrorCode = code, ErrorInfo = ''''\<rparr>))]"
  by (simp add: AckSuccess_def Ack_def)

lemmas run_simps =
  Ack_def AckSuccess_def AckFailure_def Marshal_bytes_def example_runtime_def
  Itoa_def FormatInt_def formatBits.simps digit_def word_sless_alt

text \<open>
  Claim C3. Every Ack method writes the status 200 and then one body. \<open>Ack\<close> writes
  the bytes \<open>json.Marshal\<close> returns for the value (none when it fails); \<open>AckSuccess\<close>
  is \<open>Ack\<close> of the envelope with status \<open>OK\<close>, the given code and the first message
  (the empty string when there is none); \<open>AckFailure\<close> is \<open>Ack\<close> of the envelope
  with status \<open>FAIL\<close>, code 1 and the first message. No call of an Ack method writes
  another status.
\<close>

theorem Ack_status_200:
  "Ack rt w v = w @ [WriteHeader 200, Write (Marshal_bytes rt v)]
   \<and> (json_Marshal rt v = Inr b \<longrightarrow> Ack rt w v = w @ [WriteHeader 200, Write b])
   \<and> AckSuccess rt w code message =
       Ack rt w (Envelope \<lparr>ActionStatus = ''OK'', ErrorCode = code,
                          ErrorInfo = (case message of [] \<Rightarrow> '''' | m # ms \<Rightarrow> m)\<rparr>)
   \<and> AckFailure rt w message =
       Ack rt w (Envelope \<lparr>ActionStatus = ''FAIL'', ErrorCode = 1,
                          ErrorInfo = (case message of [] \<Rightarrow> '''' | m # ms \<Rightarrow> m)\<rparr>)
   \<and> (\<exists>body. run_ack rt w call = w @ [WriteHeader 200, Write body])"
proof -
  have 1: "Ack rt w v = w @ [WriteHeader 200, Write (Marshal_bytes rt v)]" for v
    by (simp add: Ack_def)
  have 2: "json_Marshal rt v = Inr b \<longrightarrow> Ack rt w v = w @ [WriteHeader 200, Write b]"
    by (simp add: Ack_def Marshal_bytes_def)
  have 3: "AckSuccess rt w code message =
       Ack rt w (Envelope \<lparr>ActionStatus = ''OK'', ErrorCode = code,
                          ErrorInfo = (case message of [] \<Rightarrow> '''' | m # ms \<Rightarrow> m)\<rparr>)"
    for code message
    by (cases message) (simp_all add: AckSuccess_def)
  have 4: "AckFailure rt w message =
       Ack rt w (Envelope \<lparr>ActionStatus = ''FAIL'', ErrorCode = 1,
                          ErrorInfo = (case message of [] \<Rightarrow> '''' | m # ms \<Rightarrow> m)\<rparr>)"
    for message
    by (cases message) (simp_all add: AckFailure_def)
  have 5: "\<exists>body. run_ack rt w call = w @ [WriteHeader 200, Write body]"
    by (cases call) (simp_all add: 1 3 4)
  from 1 2 3 4 5 show ?thesis by blast
qed

theorem Ack_status_200_witness:
  "json_Marshal example_runtime
       (Envelope \<lparr>ActionStatus = ''OK'', ErrorCode = 0, ErrorInfo = ''fine''\<rparr>)
     = Inr ''OK 0 fine''
   \<and> Ack example_runtime []
       (Envelope \<lparr>ActionStatus = ''OK'', ErrorCode = 0, ErrorInfo = ''fine''\<rparr>)
     = [WriteHeader 200, Write ''OK 0 fine'']
   \<and> AckSuccess example_runtime [] 0 [''fine'', ''ignored'']
     = [WriteHeader 200, Write ''OK 0 fine'']
   \<and> AckFailure example_runtime [] [] = [WriteHeader 200, Write ''FAIL 1 '']"
  using Ack_status_200 [where rt = example_runtime and w = "[]" and b = "''OK 0 fine''"
      and v = "Envelope \<lparr>ActionStatus = ''OK'', ErrorCode = 0, ErrorInfo = ''fine''\<rparr>"
      and code = 0 and message = "[''fine'', ''ignored'']" and call = "CallAckFailure []"]
    Ack_status_200 [where rt = example_runtime and w = "[]" and message = "[]"]
  by (simp add: run_simps)

subsection \<open>The command registry\<close>

lemma command_switch_table:
  "map command_switch commands =
     [Some (1, StateChange), Some (2, BeforeFriendAdd), Some (3, BeforeFriendResponse),
      Some (4, AfterFriendAdd), Some (5, AfterFriendDelete), Some (6, AfterBlacklistAdd),
      Some (7, AfterBlacklistDelete), Some (8, BeforePrivateMessageSend),
      Some (9, AfterPrivateMessageSend), Some (10, AfterPrivateMessageReport),
      Some (11, AfterPrivateMessageRevoke), Some (12, BeforeGroupCreate),
      Some (13, AfterGroupCreate), Some (14, BeforeApplyJoinGroup),
      Some (15, BeforeInviteJoinGroup), Some (16, AfterNewMemberJoinGroup),
      Some (17, AfterMemberExitGroup), Some (18, BeforeGroupMessageSend),
      Some (19, AfterGroupMessageSend), Some (20, AfterGroupFull),
      Some (21, AfterGroupDestroyed), Some (22, AfterGroupInfoChanged)]"
  by (simp add: commands_def command_switch_def)

lemma command_switch_None: "command \<notin> set commands \<Longrightarrow> command_switch command = None"
  by (simp add: commands_def command_switch_def)

lemma command_switch_Some: "command \<in> set commands \<Longrightarrow> command_switch command \<noteq> None"
  using command_switch_table
  by (metis (no_types, lifting) image_eqI list.set_map option.distinct(1) set_ConsD
      empty_set empty_iff)

lemma distinct_commands: "distinct commands"
  by (simp add: commands_def)

text \<open>
  Claim C2. The switch of \<open>parseCommand\<close> knows 22 distinct command strings. Each has
  its own event (the events are 1 to 22, no two commands share one) and the payload
  struct of that event. A string outside the 22 gives the error
  \<open>invalid callback command\<close> and no event. For a command of the 22 the result is
  that of decoding the body: the event with the payload, or the error of
  \<open>json.Unmarshal\<close>, which is not the error of an unknown command.
\<close>

theorem parseCommand_registry:
  "length commands = 22 \<and> distinct commands
   \<and> map command_switch commands =
       [Some (1, StateChange), Some (2, BeforeFriendAdd), Some (3, BeforeFriendResponse),
        Some (4, AfterFriendAdd), Some (5, AfterFriendDelete), Some (6, AfterBlacklistAdd),
        Some (7, AfterBlacklistDelete), Some (8, BeforePrivateMessageSend),
        Some (9, AfterPrivateMessageSend), Some (10, AfterPrivateMessageReport),
        Some (11, AfterPrivateMessageRevoke), Some (12, BeforeGroupCreate),
        Some (13, AfterGroupCreate), Some (14, BeforeApplyJoinGroup),
        Some (15, BeforeInviteJoinGroup), Some (16, AfterNewMemberJoinGroup),
        Some (17, AfterMemberExitGroup), Some (18, BeforeGroupMessageSend),
        Some (19, AfterGroupMessageSend), Some (20, AfterGroupFull),
        Some (21, AfterGroupDestroyed), Some (22, AfterGroupInfoChanged)]
   \<and> distinct (map (map_option fst \<circ> command_switch) commands)
   \<and> (command \<notin> set commands \<longrightarrow>
        parseCommand rt command body = Inl (errors_New ''invalid callback command''))
   \<and> (command \<in> set commands \<longrightarrow>
        (\<exists>event shape. command_switch command = Some (event, shape)
           \<and> parseCommand rt command body =
               (case json_Unmarshal rt shape body of
                  Inl e \<Rightarrow> Inl (json_error e)
                | Inr data \<Rightarrow> Inr (event, data))))
   \<and> json_error e \<noteq> errors_New ''invalid callback command''"
proof -
  have len: "length commands = 22"
    by (simp add: commands_def)
  have ev: "distinct (map (map_option fst \<circ> command_switch) commands)"
    using command_switch_table [THEN arg_cong, of "map (map_option fst)"] by simp
  have unknown: "command \<notin> set commands \<longrightarrow>
        parseCommand rt command body = Inl (errors_New ''invalid callback command'')"
    by (simp add: parseCommand_def command_switch_None)
  have known: "command \<in> set commands \<longrightarrow>
        (\<exists>event shape. command_switch command = Some (event, shape)
           \<and> parseCommand rt command body =
               (case json_Unmarshal rt shape body of
                  Inl e \<Rightarrow> Inl (json_error e)
                | Inr data \<Rightarrow> Inr (event, data)))"
  proof
    assume "command \<in> set commands"
    then obtain event shape where "command_switch command = Some (event, shape)"
      using command_switch_Some by fastforce
    then show "\<exists>event shape. command_switch command = Some (event, shape)
           \<and> parseCommand rt command body =
               (case json_Unmarshal rt shape body of
                  Inl e \<Rightarrow> Inl (json_error e)
                | Inr data \<Rightarrow> Inr (event, data))"
      by (simp add: parseCommand_def)
  qed
  show ?thesis
    using len distinct_commands command_switch_table ev unknown known by simp
qed

theorem parseCommand_registry_witness:
  "''Group.Unknown'' \<notin> set commands
   \<and> parseCommand example_runtime ''Group.Unknown'' ''{}''
       = Inl (errors_New ''invalid callback command'')
   \<and> ''Group.CallbackAfterCreateGroup'' \<in> set commands
   \<and> parseCommand example_runtime ''Group.CallbackAfterCreateGroup'' ''{}'' = Inr (13, ''{}'')
   \<and> parseCommand example_runtime ''Group.CallbackAfterCreateGroup'' []
       = Inl (json_error ''unexpected end of JSON input'')"
  using parseCommand_registry [where command = "''Group.Unknown''" and rt = example_runtime
      and body = "''{}''"]
    parseCommand_registry [where command = "''Group.CallbackAfterCreateGroup''"
      and rt = example_runtime and body = "''{}''"]
    parseCommand_registry [where command = "''Group.CallbackAfterCreateGroup''"
      and rt = example_runtime and body = "[]"]
  by (simp add: commands_def command_switch_def parseCommand_def example_runtime_def)

subsection \<open>Listen\<close>

lemma Listen_no_token: "token c = '''' \<Longrightarrow> Listen rt c ctx w r = Listen_dispatch rt c ctx w r"
  by (simp add: Listen_def)

lemma Listen_verified: "verified rt c r \<Longrightarrow> Listen rt c ctx w r = Listen_dispatch rt c ctx w r"
  by (auto simp: Listen_def verified_def split: prod.splits option.splits)

lemma Listen_not_verified:
  "\<not> verified rt c r \<Longrightarrow> \<exists>msg. Listen rt c ctx w r = AckFailure rt w [msg]"
  by (auto simp: Listen_def verified_def split: prod.splits option.splits)

lemma Listen_dispatch_resolves:
  assumes "GetQuery r queryAppId = (Itoa (appId c), True)"
    and "GetQuery r queryCommand = (command, True)"
    and "Body r = Inr body"
    and "parseCommand rt command body = Inr (event, data)"
  shows "Listen_dispatch rt c ctx w r =
     (case handlers c event of
        Some fn \<Rightarrow> call_handler rt w fn event ctx data
      | None \<Rightarrow> AckSuccess rt w 0 [])"
  using assms by (simp add: Listen_dispatch_def)

lemma Listen_resolves:
  assumes "resolves rt c r event data"
  shows "Listen rt c ctx w r =
     (case handlers c event of
        Some fn \<Rightarrow> call_handler rt w fn event ctx data
      | None \<Rightarrow> AckSuccess rt w 0 [])"
proof -
  from assms have v: "verified rt c r"
    and a: "GetQuery r queryAppId = (Itoa (appId c), True)"
    by (simp_all add: resolves_def)
  from assms obtain command body where
    "GetQuery r queryCommand = (command, True)" "Body r = Inr body"
    "parseCommand rt command body = Inr (event, data)"
    by (auto simp: resolves_def split: prod.splits sum.splits)
  with a have "Listen_dispatch rt c ctx w r =
     (case handlers c event of
        Some fn \<Rightarrow> call_handler rt w fn event ctx data
      | None \<Rightarrow> AckSuccess rt w 0 [])"
    by (rule Listen_dispatch_resolves)
  with v show ?thesis by (simp add: Listen_verified)
qed

lemma Listen_dispatch_cases:
  "(\<exists>msg. Listen_dispatch rt c ctx w r = AckFailure rt w [msg])
   \<or> (\<exists>command body event data.
         GetQuery r queryAppId = (Itoa (appId c), True)
         \<and> GetQuery r queryCommand = (command, True) \<and> Body r = Inr body
         \<and> parseCommand rt command body = Inr (event, data))"
  by (auto simp: Listen_dispatch_def split: prod.splits sum.splits)

lemma Listen_not_resolves:
  assumes "\<And>event data. \<not> resolves rt c r event data"
  shows "\<exists>msg. Listen rt c ctx w r = AckFailure rt w [msg]"
proof (cases "verified rt c r")
  case False
  then show ?thesis by (rule Listen_not_verified)
next
  case True
  from Listen_dispatch_cases [of rt c ctx w r] show ?thesis
  proof
    assume "\<exists>msg. Listen_dispatch rt c ctx w r = AckFailure rt w [msg]"
    with True show ?thesis by (simp add: Listen_verified)
  next
    assume "\<exists>command body event data.
         GetQuery r queryAppId = (Itoa (appId c), True)
         \<and> GetQuery r queryCommand = (command, True) \<and> Body r = Inr body
         \<and> parseCommand rt command body = Inr (event, data)"
    then obtain event data where "resolves rt c r event data"
      using True by (auto simp: resolves_def)
    with assms show ?thesis by blast
  qed
qed

lemma resolves_command:
  assumes "resolves rt c r event data" and "GetQuery r queryCommand = (command, ok)"
  shows "command \<in> set commands"
proof (rule ccontr)
  assume "command \<notin> set commands"
  then have "parseCommand rt command body \<noteq> Inr (event, data)" for body
    by (simp add: parseCommand_def command_switch_None)
  with assms show False
    by (auto simp: resolves_def split: sum.splits)
qed

lemma filter_is_Invoke_AckFailure:
  "filter is_Invoke (AckFailure rt w message) = filter is_Invoke w"
  by (simp add: AckFailure_def Ack_def Let_def)

lemmas scenario_simps =
  GetQuery_eq parseCommand_def command_switch_def Listen_def Listen_dispatch_def
  NewCallback_def Register_def example_callback_def example_request_def
  handler_silent_def handler_accept_def handler_refuse_def acks_def

text \<open>
  Claim C5. A request whose \<open>CallbackCommand\<close> is present and is none of the
  supported commands is answered with the envelope of status \<open>FAIL\<close> (code 1, some
  message), and no handler is called: the trace has no handler call that was not
  there before.
\<close>

theorem unknown_command_fails:
  assumes "GetQuery r queryCommand = (command, True)"
    and "command \<notin> set commands"
  shows "(\<exists>msg. Listen rt c ctx w r =
            w @ [WriteHeader 200,
                 Write (Marshal_bytes rt
                   (Envelope \<lparr>ActionStatus = ''FAIL'', ErrorCode = 1, ErrorInfo = msg\<rparr>))])
         \<and> filter is_Invoke (Listen rt c ctx w r) = filter is_Invoke w"
proof -
  have nr: "\<not> resolves rt c r event data" for event data
    using resolves_command [OF _ assms(1)] assms(2) by auto
  obtain msg where "Listen rt c ctx w r = AckFailure rt w [msg]"
    using Listen_not_resolves [of rt c r ctx w, OF nr] by blast
  then show ?thesis
    by (auto simp: AckFailure_eq filter_is_Invoke_AckFailure simp del: append.simps)
qed

theorem unknown_command_fails_witness:
  "GetQuery \<lparr>rawQuery = [(''SdkAppid'', ''140000000''), (''CallbackCommand'', ''Group.Unknown'')],
             Body = Inr ''{}''\<rparr> queryCommand = (''Group.Unknown'', True)
   \<and> ''Group.Unknown'' \<notin> set commands
   \<and> Listen example_runtime (Register example_callback 13 (func handler_accept)) () []
        \<lparr>rawQuery = [(''SdkAppid'', ''140000000''), (''CallbackCommand'', ''Group.Unknown'')],
          Body = Inr ''{}''\<rparr>
       = [WriteHeader 200, Write ''FAIL 1 invalid callback command'']"
  using unknown_command_fails [where command = "''Group.Unknown''" and rt = example_runtime
      and c = "Register example_callback 13 (func handler_accept)" and ctx = "()" and w = "[]"
      and r = "\<lparr>rawQuery = [(''SdkAppid'', ''140000000''), (''CallbackCommand'', ''Group.Unknown'')],
                Body = Inr ''{}''\<rparr>"]
  by (simp add: scenario_simps commands_def run_simps)

subsection \<open>The signed scenario\<close>

lemma FormatInt_1700000000: "FormatInt 1700000000 = ''1700000000''"
  by (simp add: FormatInt_def formatBits.simps digit_def word_sless_alt)

lemma ParseInt_1700000000: "ParseInt ''1700000000'' = Some 1700000000"
  by (simp add: ParseInt_def ParseUint_def is_digit_def)

lemma Itoa_140000000: "Itoa 140000000 = ''140000000''"
  by (simp add: Itoa_def FormatInt_def formatBits.simps digit_def word_sless_alt)

lemma digest_secret_1700000000:
  "EncodeToString (sha256_Sum ''secret1700000000'') =
     ''a09abffb61e9ed1074de76ba1133a9900ffb7cccde778fb92b31afb76f5390ff''"
  by code_simp

lemma fresh_1700000000: "\<not> 60 \<le>s abs_int64 (1700000000 - 1700000000)"
  by (simp add: abs_int64_def word_sless_alt word_sle_eq)

lemma signCheck_example:
  "signCheck 1700000000 ''a09abffb61e9ed1074de76ba1133a9900ffb7cccde778fb92b31afb76f5390ff''
     1700000000 ''secret'' = None"
  unfolding signCheck_def Let_def
  apply (simp only: fresh_1700000000 if_False FormatInt_1700000000 append.simps
      digest_secret_1700000000)
  apply simp
  done

lemma verified_example_signed:
  "verified example_runtime example_signed_callback example_signed_request"
  by (simp add: verified_def GetQuery_eq example_signed_callback_def
      example_signed_request_def NewCallback_def example_runtime_def ParseInt_1700000000
      signCheck_example)

lemma resolves_example:
  "resolves example_runtime example_callback example_request 13 ''{}''"
  by (simp add: resolves_def verified_def scenario_simps example_runtime_def Itoa_140000000)

lemma resolves_example_signed:
  "resolves example_runtime example_signed_callback example_signed_request 13 ''{}''"
  using verified_example_signed
  by (simp add: resolves_def GetQuery_eq parseCommand_def command_switch_def
      example_signed_callback_def example_signed_request_def NewCallback_def
      example_runtime_def Itoa_140000000)

text \<open>
  Claim C6. A request that passes the signature block, the check of the application
  id and the check of the command, and whose body is read and decodes, is answered
  with the envelope of status \<open>OK\<close>, code 0 and an empty \<open>ErrorInfo\<close> when no handler
  is registered for its event.
\<close>

theorem no_handler_acks_success:
  assumes "resolves rt c r event data"
    and "handlers c event = None"
  shows "Listen rt c ctx w r =
     w @ [WriteHeader 200,
          Write (Marshal_bytes rt
            (Envelope \<lparr>ActionStatus = ''OK'', ErrorCode = 0, ErrorInfo = ''''\<rparr>))]"
  using assms by (simp add: Listen_resolves AckSuccess_eq)

theorem no_handler_acks_success_witness:
  "resolves example_runtime example_signed_callback example_signed_request 13 ''{}''
   \<and> handlers example_signed_callback 13 = None
   \<and> Listen example_runtime example_signed_callback () [] example_signed_request
       = [WriteHeader 200, Write ''OK 0 '']
   \<and> resolves example_runtime example_callback example_request 13 ''{}''
   \<and> handlers example_callback 13 = None
   \<and> Listen example_runtime example_callback () [] example_request
       = [WriteHeader 200, Write ''OK 0 '']"
proof -
  have h1: "handlers example_signed_callback 13 = None"
    by (simp add: example_signed_callback_def NewCallback_def)
  have h2: "handlers example_callback 13 = None"
    by (simp add: example_callback_def NewCallback_def)
  have m: "Marshal_bytes example_runtime
      (Envelope \<lparr>ActionStatus = ''OK'', ErrorCode = 0, ErrorInfo = ''''\<rparr>) = ''OK 0 ''"
    by (simp add: run_simps)
  show ?thesis
    using no_handler_acks_success [OF resolves_example_signed h1, of "()" "[]"]
      no_handler_acks_success [OF resolves_example h2, of "()" "[]"]
      resolves_example_signed resolves_example h1 h2
    by (simp add: m)
qed

text \<open>
  Claim C7. Without a secret \<open>Listen\<close> goes straight to the check of the
  application id: it never reads \<open>Sign\<close> or \<open>RequestTime\<close>. Two requests with the
  same body whose queries agree once the pairs of these two keys are left out
  (whatever their values, present or absent) get the same outcome.
\<close>

theorem no_secret_ignores_signature:
  assumes "token c = ''''"
    and "filter (\<lambda>kv. fst kv \<noteq> querySign \<and> fst kv \<noteq> querySignRequestTime) (rawQuery r1) =
         filter (\<lambda>kv. fst kv \<noteq> querySign \<and> fst kv \<noteq> querySignRequestTime) (rawQuery r2)"
    and "Body r1 = Body r2"
  shows "Listen rt c ctx w r1 = Listen rt c ctx w r2
         \<and> Listen rt c ctx w r1 = Listen_dispatch rt c ctx w r1"
proof -
  have sub: "filter (\<lambda>kv. fst kv = key) ps =
      filter (\<lambda>kv. fst kv = key)
        (filter (\<lambda>kv. fst kv \<noteq> querySign \<and> fst kv \<noteq> querySignRequestTime) ps)"
    if "key \<noteq> querySign" "key \<noteq> querySignRequestTime" for key and ps :: "(string \<times> string) list"
    using that by (induction ps) auto
  have same: "GetQuery r1 key = GetQuery r2 key"
    if "key \<noteq> querySign" "key \<noteq> querySignRequestTime" for key
    unfolding GetQuery_eq
    using sub [OF that, of "rawQuery r1"] sub [OF that, of "rawQuery r2"] assms(2) by simp
  have "GetQuery r1 queryAppId = GetQuery r2 queryAppId"
    by (rule same) simp_all
  moreover have "GetQuery r1 queryCommand = GetQuery r2 queryCommand"
    by (rule same) simp_all
  ultimately have "Listen_dispatch rt c ctx w r1 = Listen_dispatch rt c ctx w r2"
    using assms(3) by (simp add: Listen_dispatch_def split: prod.splits)
  with assms(1) show ?thesis by (simp add: Listen_no_token)
qed

theorem no_secret_ignores_signature_witness:
  "token example_callback = ''''
   \<and> Body example_signed_request = Body example_request
   \<and> Listen example_runtime example_callback () [] example_signed_request
       = Listen example_runtime example_callback () [] example_request
   \<and> Listen example_runtime example_callback () [] example_request
       = [WriteHeader 200, Write ''OK 0 '']"
proof -
  have t: "token example_callback = ''''"
    by (simp add: example_callback_def NewCallback_def)
  have q: "filter (\<lambda>kv. fst kv \<noteq> querySign \<and> fst kv \<noteq> querySignRequestTime)
             (rawQuery example_signed_request) =
           filter (\<lambda>kv. fst kv \<noteq> querySign \<and> fst kv \<noteq> querySignRequestTime)
             (rawQuery example_request)"
    by (simp add: example_signed_request_def example_request_def)
  have b: "Body example_signed_request = Body example_request"
    by (simp add: example_signed_request_def example_request_def)
  have l: "Listen_dispatch example_runtime example_callback () [] example_request
       = [WriteHeader 200, Write ''OK 0 '']"
    by (simp add: scenario_simps run_simps)
  show ?thesis
    using no_secret_ignores_signature [OF t q [symmetric] b [symmetric],
        where rt = example_runtime and ctx = "()" and w = "[]"]
      t b l
    by metis
qed

subsection \<open>Registration and construction\<close>

lemma resolves_Register:
  "resolves rt (Register c event h) r event' data = resolves rt c r event' data"
  by (simp add: resolves_def verified_def Register_def split: prod.splits option.splits)

lemma filter_is_Invoke_run_ack: "filter is_Invoke (run_ack rt w call) = filter is_Invoke w"
  by (cases call) (simp_all add: Ack_def AckSuccess_def AckFailure_def Let_def)

lemma filter_is_Invoke_foldl_run_ack:
  "filter is_Invoke (foldl (run_ack rt) w calls) = filter is_Invoke w"
  by (induction calls arbitrary: w) (simp_all add: filter_is_Invoke_run_ack)

text \<open>
  Claim C8. \<open>Register\<close> for an event that already has a handler replaces it and
  reports nothing: after \<open>Register(E, H1)\<close> and \<open>Register(E, H2)\<close> the table holds
  \<open>H2\<close> for \<open>E\<close> and the receiver is the one that \<open>Register(E, H2)\<close> alone gives,
  so every later request is answered as if \<open>H1\<close> had never been registered. A
  request that resolves to \<open>E\<close> calls \<open>H2\<close>, once, with the context and the payload:
  the trace is that call followed by the responses of the \<open>Ack\<close> calls \<open>H2\<close> makes,
  and nothing of \<open>H1\<close>. (When \<open>H2\<close> is the nil function the call panics.)
\<close>

theorem Register_last_write_wins:
  "handlers (Register (Register c event h1) event h2) event = Some h2
   \<and> Register (Register c event h1) event h2 = Register c event h2
   \<and> Listen rt (Register (Register c event h1) event h2) ctx w r' =
       Listen rt (Register c event h2) ctx w r'
   \<and> (resolves rt c r event data \<longrightarrow>
        Listen rt (Register (Register c event h1) event (func fn2)) ctx w r =
          foldl (run_ack rt) (w @ [Invoke event ctx data]) (fn2 ctx data))
   \<and> (resolves rt c r event data \<longrightarrow>
        filter is_Invoke (Listen rt (Register (Register c event h1) event (func fn2)) ctx w r) =
          filter is_Invoke w @ [Invoke event ctx data])
   \<and> (resolves rt c r event data \<longrightarrow>
        Listen rt (Register (Register c event h1) event nil_func) ctx w r =
          w @ [Panic ''call of nil func''])"
proof -
  have 1: "handlers (Register (Register c event h1) event h) event = Some h" for h
    by (simp add: Register_def)
  have 2: "Register (Register c event h1) event h2 = Register c event h2"
    by (simp add: Register_def)
  have 3: "Listen rt (Register (Register c event h1) event h2) ctx w r' =
       Listen rt (Register c event h2) ctx w r'"
    by (simp add: 2)
  have res: "resolves rt (Register (Register c event h1) event h) r event data"
    if "resolves rt c r event data" for h
    using that by (simp add: resolves_Register)
  have 4: "Listen rt (Register (Register c event h1) event (func fn2)) ctx w r =
          foldl (run_ack rt) (w @ [Invoke event ctx data]) (fn2 ctx data)"
    if "resolves rt c r event data"
    using res [OF that, of "func fn2"] by (simp add: Listen_resolves 1)
  have 5: "filter is_Invoke (Listen rt (Register (Register c event h1) event (func fn2)) ctx w r) =
          filter is_Invoke w @ [Invoke event ctx data]"
    if "resolves rt c r event data"
    using 4 [OF that] by (simp add: filter_is_Invoke_foldl_run_ack)
  have 6: "Listen rt (Register (Register c event h1) event nil_func) ctx w r =
          w @ [Panic ''call of nil func'']"
    if "resolves rt c r event data"
    using res [OF that, of nil_func] by (simp add: Listen_resolves 1)
  from 1 [of h2] 2 3 4 5 6 show ?thesis by blast
qed

theorem Register_last_write_wins_witness:
  "resolves example_runtime example_callback example_request 13 ''{}''
   \<and> handler_refuse () ''{}'' = [CallAckFailure [''refused'']]
   \<and> Listen example_runtime
        (Register (Register example_callback 13 (func handler_refuse)) 13 (func handler_accept))
        () [] example_request
       = [Invoke 13 () ''{}'', WriteHeader 200, Write ''OK 0 '']
   \<and> Listen example_runtime (Register example_callback 13 (func handler_refuse))
        () [] example_request
       = [Invoke 13 () ''{}'', WriteHeader 200, Write ''FAIL 1 refused'']"
proof -
  have e: "foldl (run_ack example_runtime) ([] @ [Invoke 13 () ''{}'']) (handler_accept () ''{}'')
      = [Invoke 13 () ''{}'', WriteHeader 200, Write ''OK 0 '']"
    by (simp add: handler_accept_def run_simps)
  have h1: "Listen example_runtime (Register example_callback 13 (func handler_refuse))
        () [] example_request
       = [Invoke 13 () ''{}'', WriteHeader 200, Write ''FAIL 1 refused'']"
    by (simp add: scenario_simps run_simps)
  have r: "handler_refuse () ''{}'' = [CallAckFailure [''refused'']]"
    by (simp add: handler_refuse_def)
  show ?thesis
    using Register_last_write_wins [where c = example_callback and event = 13
        and ?h1.0 = "func handler_refuse" and ?h2.0 = "func handler_accept"
        and ?fn2.0 = handler_accept and rt = example_runtime and r = example_request
        and r' = example_request and data = "''{}''" and ctx = "()" and w = "[]"]
      resolves_example e h1 r
    by metis
qed

text \<open>
  Claim C10. \<open>NewCallback\<close> stores the first token it is given and the empty string
  when it is given none; further tokens change nothing. \<open>Listen\<close> runs the signature
  block exactly when the stored token is not empty: with the empty token it is the
  part from the check of the application id on, with another token a request the
  block does not let through is refused. So the explicit token \<open>""\<close> gives the
  receiver that no token gives.
\<close>

theorem NewCallback_token:
  "token (NewCallback a ts :: ('c, 'd, 'a) callback) = (case ts of [] \<Rightarrow> '''' | t # rest \<Rightarrow> t)
   \<and> (NewCallback a (t # rest) :: ('c, 'd, 'a) callback) = NewCallback a [t]
   \<and> (NewCallback a [''''] :: ('c, 'd, 'a) callback) = NewCallback a []
   \<and> Listen rt (NewCallback a ['''']) ctx w r = Listen rt (NewCallback a []) ctx w r
   \<and> (token c = '''' \<longrightarrow> Listen rt c ctx w r = Listen_dispatch rt c ctx w r)
   \<and> (token c \<noteq> '''' \<and> GetQuery r querySign = (s, False) \<longrightarrow>
        Listen rt c ctx w r = AckFailure rt w [''invalid sign''])
   \<and> (token c \<noteq> '''' \<and> \<not> verified rt c r \<longrightarrow>
        (\<exists>msg. Listen rt c ctx w r = AckFailure rt w [msg]))"
proof -
  have 1: "token (NewCallback a ts :: ('c, 'd, 'a) callback) =
      (case ts of [] \<Rightarrow> '''' | t # rest \<Rightarrow> t)"
    by (cases ts) (simp_all add: NewCallback_def)
  have 2: "(NewCallback a (t # rest) :: ('c, 'd, 'a) callback) = NewCallback a [t]"
    by (simp add: NewCallback_def)
  have 3: "(NewCallback a [''''] :: ('c, 'd, 'a) callback) = NewCallback a []"
    by (simp add: NewCallback_def)
  have 4: "Listen rt (NewCallback a ['''']) ctx w r = Listen rt (NewCallback a []) ctx w r"
    by (simp add: NewCallback_def)
  have 5: "token c = '''' \<longrightarrow> Listen rt c ctx w r = Listen_dispatch rt c ctx w r"
    by (simp add: Listen_no_token)
  have 6: "token c \<noteq> '''' \<and> GetQuery r querySign = (s, False) \<longrightarrow>
        Listen rt c ctx w r = AckFailure rt w [''invalid sign'']"
    by (simp add: Listen_def)
  have 7: "token c \<noteq> '''' \<and> \<not> verified rt c r \<longrightarrow>
        (\<exists>msg. Listen rt c ctx w r = AckFailure rt w [msg])"
    using Listen_not_verified [of rt c r ctx w] by simp
  from 1 2 3 4 5 6 7 show ?thesis by blast
qed

theorem NewCallback_token_witness:
  "token (NewCallback 140000000 [''secret'', ''other''] :: (unit, bytes, unit) callback) = ''secret''
   \<and> token (NewCallback 140000000 [''''] :: (unit, bytes, unit) callback) = ''''
   \<and> Listen example_runtime (NewCallback 140000000 ['''']) () [] example_request
       = [WriteHeader 200, Write ''OK 0 '']
   \<and> GetQuery example_request querySign = ('''', False)
   \<and> \<not> verified example_runtime example_signed_callback example_request
   \<and> Listen example_runtime example_signed_callback () [] example_request
       = [WriteHeader 200, Write ''FAIL 1 invalid sign'']"
  using NewCallback_token [where a = 140000000 and ts = "[''secret'', ''other'']"
      and t = "''secret''" and rest = "[''other'']" and rt = example_runtime and ctx = "()"
      and w = "[]" and r = example_request and c = example_signed_callback and s = "''''"]
    NewCallback_token [where a = 140000000 and ts = "['''']" and rt = example_runtime
      and ctx = "()" and w = "[]" and r = example_request
      and c = "NewCallback 140000000 ['''']"]
  by (simp add: scenario_simps run_simps verified_def example_signed_callback_def)

subsection \<open>The signature check\<close>

lemma sint_range64: "- (2 ^ 63) \<le> sint (x :: int64) \<and> sint x < 2 ^ 63"
  using sint_ge [of x] sint_lt [of x] by simp

lemma sint_sub_no_overflow:
  fixes a b :: int64
  assumes "\<bar>sint a - sint b\<bar> < 2 ^ 63"
  shows "sint (a - b) = sint a - sint b"
proof -
  have "sint (a - b) = signed_take_bit 63 (sint a - sint b)"
    by (simp add: sint_word_ariths)
  also have "\<dots> = sint a - sint b"
    using assms by (intro signed_take_bit_int_eq_self) auto
  finally show ?thesis .
qed

lemma sint_neg_no_overflow:
  fixes x :: int64
  assumes "sint x \<noteq> - (2 ^ 63)"
  shows "sint (- x) = - sint x"
proof -
  have "sint (- x) = signed_take_bit 63 (- sint x)"
    by (simp add: sint_word_ariths)
  also have "\<dots> = - sint x"
    using assms sint_range64 [of x] by (intro signed_take_bit_int_eq_self) auto
  finally show ?thesis .
qed

lemma sint_abs_int64:
  assumes "sint x \<noteq> - (2 ^ 63)"
  shows "sint (abs_int64 x) = \<bar>sint x\<bar>"
  using assms by (auto simp: abs_int64_def word_sless_alt sint_neg_no_overflow)

text \<open>
  As long as the difference of the two times fits \<open>int64\<close> and is not its least
  value, the test of \<open>signCheck\<close> is the test of the window of 60 seconds.
\<close>

lemma window_no_overflow:
  fixes now t :: int64
  assumes "\<bar>sint now - sint t\<bar> < 2 ^ 63"
  shows "(60 \<le>s abs_int64 (now - t)) = (60 \<le> \<bar>sint now - sint t\<bar>)"
proof -
  have d: "sint (now - t) = sint now - sint t"
    using assms by (rule sint_sub_no_overflow)
  with assms have "sint (now - t) \<noteq> - (2 ^ 63)" by auto
  then have "sint (abs_int64 (now - t)) = \<bar>sint now - sint t\<bar>"
    by (simp add: sint_abs_int64 d)
  then show ?thesis by (simp add: word_sle_eq)
qed

lemma signCheck_None_iff:
  "signCheck now sign t tok = None \<longleftrightarrow>
     \<not> 60 \<le>s abs_int64 (now - t) \<and> sign = EncodeToString (sha256_Sum (tok @ FormatInt t))"
  by (simp add: signCheck_def Let_def)

lemma signCheck_in_window:
  assumes "\<bar>sint now - sint t\<bar> < 2 ^ 63"
  shows "signCheck now sign t tok = None \<longleftrightarrow>
     sign = EncodeToString (sha256_Sum (tok @ FormatInt t)) \<and> \<bar>sint now - sint t\<bar> < 60"
  using window_no_overflow [OF assms] by (auto simp: signCheck_None_iff)

text \<open>The three cases the specification names.\<close>

lemma signCheck_same_time:
  "signCheck now (EncodeToString (sha256_Sum (tok @ FormatInt now))) now tok = None"
  by (simp add: signCheck_None_iff abs_int64_def word_sless_alt word_sle_eq)

lemma signCheck_61_seconds_old:
  "signCheck now sign (now - 61) tok = Some (errors_New ''request time expired'')"
  by (simp add: signCheck_def abs_int64_def word_sless_alt word_sle_eq)

lemma signCheck_other_sign:
  "sign \<noteq> EncodeToString (sha256_Sum (tok @ FormatInt t)) \<Longrightarrow> signCheck now sign t tok \<noteq> None"
  by (simp add: signCheck_None_iff)

lemma ParseInt_wrapped: "ParseInt ''-9223372035154775808'' = Some (- 9223372035154775808)"
  by (simp add: ParseInt_def ParseUint_def is_digit_def)

lemma FormatInt_wrapped: "FormatInt (- 9223372035154775808) = ''-9223372035154775808''"
  by (simp add: FormatInt_def formatBits.simps digit_def word_sless_alt)

lemma digest_secret_wrapped:
  "EncodeToString (sha256_Sum ''secret-9223372035154775808'') =
     ''003c208991f40b44c09646db1405e2c08ec1b63be9ffb9824eee7f8dccebc9f9''"
  by code_simp

lemma wrapped_passes: "\<not> 60 \<le>s abs_int64 (1700000000 - (- 9223372035154775808))"
  by (simp add: abs_int64_def word_sless_alt word_sle_eq)

text \<open>
  Claim C1. \<open>signCheck\<close> is meant to accept exactly when the signature is the
  lower-case hexadecimal SHA-256 digest of the secret followed by the decimal
  timestamp and the timestamp is less than 60 seconds away from the clock. The code
  misses that: the difference is taken in \<open>int64\<close> and \<open>abs\<close> of the least \<open>int64\<close> is
  that same negative number. With the clock at 1700000000 the timestamp
  \<open>-9223372035154775808\<close> is \<open>2 ^ 63\<close> seconds away; \<open>ParseInt\<close> accepts it and
  \<open>signCheck\<close> accepts the request that carries the digest for it.
\<close>

theorem signCheck_accepts_wrapped_time:
  "ParseInt ''-9223372035154775808'' = Some (- 9223372035154775808)
   \<and> abs_int64 (1700000000 - (- 9223372035154775808)) = - 9223372036854775808
   \<and> signCheck 1700000000
        ''003c208991f40b44c09646db1405e2c08ec1b63be9ffb9824eee7f8dccebc9f9''
        (- 9223372035154775808) ''secret'' = None
   \<and> \<bar>sint (1700000000 :: int64) - sint (- 9223372035154775808 :: int64)\<bar> = 2 ^ 63"
proof -
  have a: "abs_int64 (1700000000 - (- 9223372035154775808)) = - 9223372036854775808"
    by (simp add: abs_int64_def word_sless_alt)
  have s: "signCheck 1700000000
        ''003c208991f40b44c09646db1405e2c08ec1b63be9ffb9824eee7f8dccebc9f9''
        (- 9223372035154775808) ''secret'' = None"
    unfolding signCheck_None_iff
    apply (simp only: wrapped_passes FormatInt_wrapped append.simps digest_secret_wrapped)
    apply simp
    done
  have d: "\<bar>sint (1700000000 :: int64) - sint (- 9223372035154775808 :: int64)\<bar> = 2 ^ 63"
    by simp
  from ParseInt_wrapped a s d show ?thesis by blast
qed

text \<open>
  Claim C9. \<open>GetQuery\<close> returns the first value of a key that occurs several times,
  and the empty string with \<open>true\<close> for a key that is present with an empty value;
  only an absent key gives \<open>false\<close>. So with a secret an empty \<open>Sign\<close> passes the
  test for a missing parameter: the comparison of the digests is what refuses it,
  with \<open>invalid signature\<close>, once the checks of \<open>RequestTime\<close> that come before it
  have passed; no digest is the empty string.
\<close>

theorem GetQuery_first_value:
  "(rawQuery r = ps @ (key, v) # qs \<and> key \<notin> fst ` set ps \<longrightarrow> GetQuery r key = (v, True))
   \<and> (key \<notin> fst ` set (rawQuery r) \<longrightarrow> GetQuery r key = ('''', False))
   \<and> signCheck now '''' t tok \<noteq> None
   \<and> (\<not> 60 \<le>s abs_int64 (now - t) \<longrightarrow>
        signCheck now '''' t tok = Some (errors_New ''invalid signature''))
   \<and> (token c \<noteq> '''' \<and> GetQuery r querySign = ('''', True)
        \<and> GetQuery r querySignRequestTime = (requestTime, True)
        \<and> ParseInt requestTime = Some t \<and> \<not> 60 \<le>s abs_int64 (time_Now_Unix rt - t) \<longrightarrow>
        Listen rt c ctx w r = AckFailure rt w [''invalid signature''])
   \<and> (token c \<noteq> '''' \<and> GetQuery r querySign = ('''', True) \<longrightarrow>
        (\<exists>msg \<in> {''invalid request time'', ''parse request time err'',
                  ''request time expired'', ''invalid signature''}.
           Listen rt c ctx w r = AckFailure rt w [msg]))"
proof -
  have nonempty: "'''' \<noteq> EncodeToString (sha256_Sum m)" for m
    using length_digest [of m] by auto
  have 1: "rawQuery r = ps @ (key, v) # qs \<and> key \<notin> fst ` set ps \<longrightarrow> GetQuery r key = (v, True)"
  proof
    assume a: "rawQuery r = ps @ (key, v) # qs \<and> key \<notin> fst ` set ps"
    then have "filter (\<lambda>kv. fst kv = key) ps = []"
      by (auto simp: filter_empty_conv)
    with a show "GetQuery r key = (v, True)"
      by (simp add: GetQuery_eq)
  qed
  have 2: "key \<notin> fst ` set (rawQuery r) \<longrightarrow> GetQuery r key = ('''', False)"
  proof
    assume "key \<notin> fst ` set (rawQuery r)"
    then have "filter (\<lambda>kv. fst kv = key) (rawQuery r) = []"
      by (auto simp: filter_empty_conv)
    then show "GetQuery r key = ('''', False)"
      by (simp add: GetQuery_eq)
  qed
  have 3: "signCheck now '''' t tok \<noteq> None" for now t tok
    by (simp add: signCheck_None_iff nonempty)
  have 4: "signCheck now '''' t tok = Some (errors_New ''invalid signature'')"
    if "\<not> 60 \<le>s abs_int64 (now - t)" for now t tok
    using that by (simp add: signCheck_def Let_def nonempty)
  have 5: "Listen rt c ctx w r = AckFailure rt w [''invalid signature'']"
    if "token c \<noteq> ''''" "GetQuery r querySign = ('''', True)"
      "GetQuery r querySignRequestTime = (requestTime, True)"
      "ParseInt requestTime = Some t" "\<not> 60 \<le>s abs_int64 (time_Now_Unix rt - t)"
    using that by (simp add: Listen_def 4)
  have 6: "\<exists>msg \<in> {''invalid request time'', ''parse request time err'',
                  ''request time expired'', ''invalid signature''}.
           Listen rt c ctx w r = AckFailure rt w [msg]"
    if "token c \<noteq> ''''" "GetQuery r querySign = ('''', True)"
    using that
    by (auto simp: Listen_def signCheck_def Let_def nonempty split: prod.splits option.splits)
  from 1 2 3 4 5 6 show ?thesis by blast
qed

theorem GetQuery_first_value_witness:
  "GetQuery \<lparr>rawQuery = [(''SdkAppid'', ''140000000''), (''Sign'', ''''),
                          (''Sign'', ''a09abffb61e9ed1074de76ba1133a9900ffb7cccde778fb92b31afb76f5390ff''),
                          (''RequestTime'', ''1700000000'')],
             Body = Inr ''{}''\<rparr> querySign = ('''', True)
   \<and> GetQuery example_request querySign = ('''', False)
   \<and> token example_signed_callback = ''secret''
   \<and> Listen example_runtime example_signed_callback () []
        \<lparr>rawQuery = [(''SdkAppid'', ''140000000''), (''Sign'', ''''),
                     (''Sign'', ''a09abffb61e9ed1074de76ba1133a9900ffb7cccde778fb92b31afb76f5390ff''),
                     (''RequestTime'', ''1700000000'')],
          Body = Inr ''{}''\<rparr>
       = [WriteHeader 200, Write ''FAIL 1 invalid signature'']"
proof -
  let ?r = "\<lparr>rawQuery = [(''SdkAppid'', ''140000000''), (''Sign'', ''''),
                     (''Sign'', ''a09abffb61e9ed1074de76ba1133a9900ffb7cccde778fb92b31afb76f5390ff''),
                     (''RequestTime'', ''1700000000'')],
          Body = Inr ''{}''\<rparr>"
  have t: "token example_signed_callback = ''secret''"
    by (simp add: example_signed_callback_def NewCallback_def)
  have n: "time_Now_Unix example_runtime = 1700000000"
    by (simp add: example_runtime_def)
  have q: "GetQuery ?r querySignRequestTime = (''1700000000'', True)"
    by (simp add: GetQuery_eq)
  have f: "AckFailure example_runtime [] [''invalid signature'']
      = [WriteHeader 200, Write ''FAIL 1 invalid signature'']"
    by (simp add: run_simps)
  note first = GetQuery_first_value [where r = ?r and key = querySign and v = "''''"
      and ps = "[(''SdkAppid'', ''140000000'')]"
      and qs = "[(''Sign'', ''a09abffb61e9ed1074de76ba1133a9900ffb7cccde778fb92b31afb76f5390ff''),
                 (''RequestTime'', ''1700000000'')]"
      and c = example_signed_callback and rt = example_runtime
      and requestTime = "''1700000000''" and t = 1700000000 and now = 1700000000
      and tok = "''secret''" and ctx = "()" and w = "[]"]
  note absent = GetQuery_first_value [where r = example_request and key = querySign
      and v = "''''" and ps = "[]" and qs = "[]"
      and c = example_signed_callback and rt = example_runtime
      and requestTime = "''1700000000''" and t = 1700000000 and now = 1700000000
      and tok = "''secret''" and ctx = "()" and w = "[]"]
  have g: "GetQuery ?r querySign = ('''', True)"
    using first by simp
  have e: "GetQuery example_request querySign = ('''', False)"
    using absent by (simp add: example_request_def)
  have l: "Listen example_runtime example_signed_callback () [] ?r
      = AckFailure example_runtime [] [''invalid signature'']"
    using first t n q g ParseInt_1700000000 fresh_1700000000
    by simp
  from g e t l f show ?thesis by simp
qed

subsection \<open>The number of responses\<close>

lemma acks_append: "acks (w @ w') = acks w + acks w'"
  by (simp add: acks_def)

lemma acks_run_ack: "acks (run_ack rt w call) = acks w + 1"
  by (cases call) (simp_all add: Ack_def AckSuccess_def AckFailure_def Let_def acks_def)

lemma acks_foldl_run_ack: "acks (foldl (run_ack rt) w calls) = acks w + length calls"
  by (induction calls arbitrary: w) (simp_all add: acks_run_ack)

lemma acks_Invoke: "acks (w @ [Invoke event ctx data]) = acks w"
  by (simp add: acks_def)

lemma filter_is_Panic_run_ack: "filter is_Panic (run_ack rt w call) = filter is_Panic w"
  by (cases call) (simp_all add: Ack_def AckSuccess_def AckFailure_def Let_def)

lemma filter_is_Panic_foldl_run_ack:
  "filter is_Panic (foldl (run_ack rt) w calls) = filter is_Panic w"
  by (induction calls arbitrary: w) (simp_all add: filter_is_Panic_run_ack)

text \<open>A request resolves to at most one event and payload.\<close>

lemma resolves_unique:
  assumes "resolves rt c r event data" and "resolves rt c r event' data'"
  shows "event' = event \<and> data' = data"
  using assms by (auto simp: resolves_def split: prod.splits sum.splits)

text \<open>
  Claim C4, as the code has it. Every request falls under one of three
  cases. (1) \<open>Listen\<close> does not reach a registered handler: a check fails, the body is
  not read, the command is unknown, the body does not decode, or no handler is
  registered. Then it returns having written exactly one response itself, the
  status 200 and one body. (2) A handler function is registered for the event:
  \<open>Listen\<close> calls it and returns when it returns, without a panic, and writes nothing
  itself; the responses are those of the calls the handler makes on its \<open>Ack\<close>, one
  for each call. (3) The registered handler is the nil function: the call panics
  and nothing is written.
\<close>

theorem Listen_one_ack_unless_dispatched:
  "((\<forall>event data. resolves rt c r event data \<longrightarrow> handlers c event = None) \<longrightarrow>
      (\<exists>body. Listen rt c ctx w r = w @ [WriteHeader 200, Write body])
      \<and> acks (Listen rt c ctx w r) = acks w + 1)
   \<and> (resolves rt c r event data \<and> handlers c event = Some (func fn) \<longrightarrow>
        Listen rt c ctx w r = foldl (run_ack rt) (w @ [Invoke event ctx data]) (fn ctx data)
        \<and> acks (Listen rt c ctx w r) = acks w + length (fn ctx data)
        \<and> filter is_Panic (Listen rt c ctx w r) = filter is_Panic w)
   \<and> (resolves rt c r event data \<and> handlers c event = Some nil_func \<longrightarrow>
        Listen rt c ctx w r = w @ [Panic ''call of nil func'']
        \<and> acks (Listen rt c ctx w r) = acks w)
   \<and> ((\<forall>event data. resolves rt c r event data \<longrightarrow> handlers c event = None)
       \<or> (\<exists>event data fn. resolves rt c r event data \<and> handlers c event = Some (func fn))
       \<or> (\<exists>event data. resolves rt c r event data \<and> handlers c event = Some nil_func))"
proof -
  have 1: "(\<exists>body. Listen rt c ctx w r = w @ [WriteHeader 200, Write body])
      \<and> acks (Listen rt c ctx w r) = acks w + 1"
    if none: "\<forall>event data. resolves rt c r event data \<longrightarrow> handlers c event = None"
  proof (cases "\<exists>event data. resolves rt c r event data")
    case True
    then obtain event data where res: "resolves rt c r event data" by blast
    with none have "handlers c event = None" by blast
    with res have "Listen rt c ctx w r = AckSuccess rt w 0 []"
      by (simp add: Listen_resolves)
    then show ?thesis
      by (simp add: AckSuccess_eq acks_def)
  next
    case False
    then have "\<And>event data. \<not> resolves rt c r event data" by blast
    from Listen_not_resolves [of rt c r ctx w, OF this]
    obtain msg where "Listen rt c ctx w r = AckFailure rt w [msg]" by blast
    then show ?thesis
      by (simp add: AckFailure_eq acks_def)
  qed
  have 2: "Listen rt c ctx w r = foldl (run_ack rt) (w @ [Invoke event ctx data]) (fn ctx data)
        \<and> acks (Listen rt c ctx w r) = acks w + length (fn ctx data)
        \<and> filter is_Panic (Listen rt c ctx w r) = filter is_Panic w"
    if "resolves rt c r event data" "handlers c event = Some (func fn)"
    using that
    by (simp add: Listen_resolves acks_foldl_run_ack acks_Invoke filter_is_Panic_foldl_run_ack)
  have 3: "Listen rt c ctx w r = w @ [Panic ''call of nil func'']
        \<and> acks (Listen rt c ctx w r) = acks w"
    if "resolves rt c r event data" "handlers c event = Some nil_func"
    using that by (simp add: Listen_resolves acks_def)
  have 4: "(\<forall>event data. resolves rt c r event data \<longrightarrow> handlers c event = None)
       \<or> (\<exists>event data fn. resolves rt c r event data \<and> handlers c event = Some (func fn))
       \<or> (\<exists>event data. resolves rt c r event data \<and> handlers c event = Some nil_func)"
  proof (cases "\<exists>event data. resolves rt c r event data")
    case False
    then show ?thesis by blast
  next
    case True
    then obtain e d where res: "resolves rt c r e d" by blast
    show ?thesis
    proof (cases "handlers c e")
      case None
      have "handlers c event = None" if "resolves rt c r event data" for event data
        using resolves_unique [OF res that] None by simp
      then show ?thesis by blast
    next
      case (Some h)
      with res show ?thesis by (cases h) blast+
    qed
  qed
  from 1 2 3 4 show ?thesis by blast
qed

theorem Listen_one_ack_unless_dispatched_witness:
  "Listen example_runtime (Register example_callback 13 (func handler_accept)) () []
      \<lparr>rawQuery = [(''SdkAppid'', ''999''),
                    (''CallbackCommand'', ''Group.CallbackAfterCreateGroup'')],
        Body = Inr ''{}''\<rparr>
     = [WriteHeader 200, Write ''FAIL 1 invalid sdk appId'']
   \<and> acks (Listen example_runtime (Register example_callback 13 (func handler_accept)) () []
      \<lparr>rawQuery = [(''SdkAppid'', ''999''),
                    (''CallbackCommand'', ''Group.CallbackAfterCreateGroup'')],
        Body = Inr ''{}''\<rparr>) = 1
   \<and> resolves example_runtime (Register example_callback 13 (func handler_accept))
        example_request 13 ''{}''
   \<and> handlers (Register example_callback 13 (func handler_accept)) 13 = Some (func handler_accept)
   \<and> Listen example_runtime (Register example_callback 13 (func handler_accept)) () []
        example_request
       = [Invoke 13 () ''{}'', WriteHeader 200, Write ''OK 0 '']
   \<and> acks (Listen example_runtime (Register example_callback 13 (func handler_accept)) () []
        example_request) = 1
   \<and> resolves example_runtime (Register example_callback 13 nil_func) example_request 13 ''{}''
   \<and> handlers (Register example_callback 13 nil_func) 13 = Some nil_func
   \<and> Listen example_runtime (Register example_callback 13 nil_func) () [] example_request
       = [Panic ''call of nil func'']
   \<and> acks (Listen example_runtime (Register example_callback 13 nil_func) () []
        example_request) = 0"
proof -
  let ?bad = "\<lparr>rawQuery = [(''SdkAppid'', ''999''),
                    (''CallbackCommand'', ''Group.CallbackAfterCreateGroup'')],
        Body = Inr ''{}''\<rparr>"
  let ?c = "Register example_callback 13 (func handler_accept)"
  let ?n = "Register example_callback 13 nil_func :: (unit, bytes, unit) callback"
  have none: "\<forall>event data. resolves example_runtime ?c ?bad event data \<longrightarrow>
      handlers ?c event = None"
    by (simp add: resolves_def GetQuery_eq Register_def example_callback_def NewCallback_def
        Itoa_140000000)
  have bad: "Listen example_runtime ?c () [] ?bad
      = [WriteHeader 200, Write ''FAIL 1 invalid sdk appId'']"
    by (simp add: scenario_simps run_simps)
  have res: "resolves example_runtime ?c example_request 13 ''{}''"
    using resolves_example by (simp add: resolves_Register)
  have resn: "resolves example_runtime ?n example_request 13 ''{}''"
    using resolves_example by (simp add: resolves_Register)
  have h: "handlers ?c 13 = Some (func handler_accept)"
    by (simp add: Register_def)
  have hn: "handlers ?n 13 = Some nil_func"
    by (simp add: Register_def)
  have e: "foldl (run_ack example_runtime) ([] @ [Invoke 13 () ''{}'']) (handler_accept () ''{}'')
      = [Invoke 13 () ''{}'', WriteHeader 200, Write ''OK 0 '']"
    by (simp add: handler_accept_def run_simps)
  have len: "length (handler_accept () ''{}'') = 1"
    by (simp add: handler_accept_def)
  have a0: "acks ([] :: (unit, bytes) ResponseWriter) = 0"
    by (simp add: acks_def)
  note t1 = Listen_one_ack_unless_dispatched [where rt = example_runtime and c = ?c
        and r = ?bad and ctx = "()" and w = "[]" and event = 13 and data = "''{}''"
        and fn = handler_accept]
  note t2 = Listen_one_ack_unless_dispatched [where rt = example_runtime and c = ?c
        and r = example_request and ctx = "()" and w = "[]" and event = 13 and data = "''{}''"
        and fn = handler_accept]
  note t3 = Listen_one_ack_unless_dispatched [where rt = example_runtime and c = ?n
        and r = example_request and ctx = "()" and w = "[]" and event = 13 and data = "''{}''"
        and fn = handler_accept]
  have c1: "acks (Listen example_runtime ?c () [] ?bad) = 1"
    using t1 none a0 by (simp add: acks_def)
  have c2: "Listen example_runtime ?c () [] example_request
       = [Invoke 13 () ''{}'', WriteHeader 200, Write ''OK 0 '']
     \<and> acks (Listen example_runtime ?c () [] example_request) = 1"
    using t2 res h e len a0 by (simp add: acks_def)
  have c3: "Listen example_runtime ?n () [] example_request = [Panic ''call of nil func'']
     \<and> acks (Listen example_runtime ?n () [] example_request) = 0"
    using t3 resn hn a0 by (simp add: acks_def)
  from bad c1 res h c2 resn hn c3 show ?thesis by (simp add: acks_def)
qed

text \<open>
  Claim C4 as the specification states it fails: a registered handler that makes no
  call on its \<open>Ack\<close> leaves the request of the scenario without any response.
\<close>

theorem Listen_silent_handler_no_ack:
  "acks (Listen example_runtime (Register example_callback 13 (func handler_silent)) () []
      example_request) = 0"
  by (simp add: scenario_simps run_simps)

end
